theory Spec2Isabelle
  imports Complex_Main "HOL-Library.AList"
begin

section \<open>JavaScript values used by the repository\<close>

text \<open>
  The repository class of the source keeps no data of its own: every method shapes a
  filter, hands it to the document backend (\<open>findOne\<close>, \<open>find\<close>,
  \<open>countDocuments\<close>, \<open>findOneAndUpdate\<close>, \<open>findOneAndDelete\<close>, \<open>deleteMany\<close>,
  \<open>updateMany\<close>) and post-processes what comes back. A promise is modelled by its
  outcome: \<open>Inl\<close> of the error it rejects with, \<open>Inr\<close> of the value it resolves to;
  a method that writes also returns the collection it leaves behind. The session handle
  is passed through to the backend unchanged and is left out, as is \<open>create\<close>.

  A JavaScript number is a double. It is modelled as \<open>NaN\<close> or an integer: page
  numbers, limits, counts and offsets are integral, \<open>NaN\<close> is what \<open>Number(undefined)\<close>
  yields. Every integer up to \<open>2^53\<close> in magnitude is a double; beyond that a double has
  53 significant bits, and the result of \<open>+\<close>, \<open>-\<close> and \<open>*\<close> is rounded to the nearest
  double, ties to the even significand. Infinities (magnitudes from \<open>2^1024\<close>), fractions
  and the sign of zero are outside the model.
\<close>

datatype jsnum = NaN | Num int

text \<open>
  The gap between neighbouring doubles at magnitude \<open>n\<close>: \<open>1\<close> below \<open>2^53\<close>
  (\<open>9007199254740992\<close>), doubling with every further bit.
\<close>

fun ulp :: "nat \<Rightarrow> nat" where
  "ulp n = (if n < 9007199254740992 then 1 else 2 * ulp (n div 2))"

declare ulp.simps [simp del]

text \<open>Rounding an exact integer result to the nearest double, ties to even.\<close>

definition round_double :: "int \<Rightarrow> int" where
  "round_double x =
     (let n = nat \<bar>x\<bar>;
          u = ulp n;
          q = n div u;
          r = n mod u;
          m = (if 2 * r < u \<or> (2 * r = u \<and> even q) then q * u else (q + 1) * u)
      in sgn x * int m)"

text \<open>\<open>a + b\<close> and \<open>a * b\<close> on numbers that are not \<open>NaN\<close>.\<close>

definition js_plus :: "int \<Rightarrow> int \<Rightarrow> int" where
  "js_plus a b = round_double (a + b)"

definition js_times :: "int \<Rightarrow> int \<Rightarrow> int" where
  "js_times a b = round_double (a * b)"

text \<open>\<open>Number(x)\<close> for \<open>x\<close> of type \<open>number | undefined\<close>.\<close>

fun Number :: "jsnum option \<Rightarrow> jsnum" where
  "Number None = NaN"
| "Number (Some x) = x"

text \<open>\<open>x - k\<close> for a number \<open>x\<close> and a numeric literal \<open>k\<close>.\<close>

fun js_minus :: "jsnum \<Rightarrow> int \<Rightarrow> jsnum" where
  "js_minus NaN k = NaN"
| "js_minus (Num n) k = Num (round_double (n - k))"

text \<open>
  \<open>x || d\<close> for \<open>x\<close> of type \<open>number | undefined\<close> and a numeric literal \<open>d\<close>:
  \<open>undefined\<close>, \<open>NaN\<close> and \<open>0\<close> are falsy, every other number is kept.
\<close>

fun js_or :: "jsnum option \<Rightarrow> int \<Rightarrow> int" where
  "js_or None d = d"
| "js_or (Some NaN) d = d"
| "js_or (Some (Num n)) d = (if n = 0 then d else n)"

text \<open>
  \<open>Math.ceil(a / b)\<close> on integral \<open>a\<close> and non-zero integral \<open>b\<close>. The dividend is
  an array length or a record count, far below \<open>2^53\<close>, where the rounded quotient
  and the exact one have the same ceiling.
\<close>

definition Math_ceil_div :: "int \<Rightarrow> int \<Rightarrow> int" where
  "Math_ceil_div a b = \<lceil>real_of_int a / real_of_int b\<rceil>"

text \<open>Values of type \<open>Archived = string | boolean\<close>, with \<open>undefined\<close> and \<open>null\<close>.\<close>

datatype archived = AUndefined | ANull | ABool bool | AStr string

text \<open>\<open>a || false\<close>: the falsy values of the type become \<open>false\<close>.\<close>

fun or_false :: "archived \<Rightarrow> archived" where
  "or_false AUndefined = ABool False"
| "or_false ANull = ABool False"
| "or_false (ABool b) = ABool b"
| "or_false (AStr s) = (if s = [] then ABool False else AStr s)"

fun truthy :: "archived \<Rightarrow> bool" where
  "truthy AUndefined = False"
| "truthy ANull = False"
| "truthy (ABool b) = b"
| "truthy (AStr s) = (s \<noteq> [])"

subsection \<open>Errors\<close>

record js_error =
  message :: string
  name :: string
  cause :: "string option"

text \<open>
  \<open>makeError\<close>: the name and the cause are set only when they are truthy; a fresh
  \<open>Error\<close> is named \<open>Error\<close>.
\<close>

definition makeError :: "string \<Rightarrow> string option \<Rightarrow> string option \<Rightarrow> js_error" where
  "makeError msg nm cs =
     (let error = \<lparr>message = msg, name = ''Error'', cause = None\<rparr>;
          error = (case nm of Some n \<Rightarrow> if n \<noteq> [] then error\<lparr>name := n\<rparr> else error
                   | None \<Rightarrow> error);
          error = (case cs of Some c \<Rightarrow> if c \<noteq> [] then error\<lparr>cause := Some c\<rparr> else error
                   | None \<Rightarrow> error)
      in error)"

text \<open>
  The error every lookup rejects with. The class declares no \<open>name\<close> property, so the
  template \<open>${this.name} not found\<close> renders \<open>undefined\<close>.
\<close>

definition not_found :: js_error where
  "not_found = makeError (''undefined'' @ '' not found'') (Some ''ModelNotFoundError'') None"

type_synonym 'a promise = "js_error + 'a"

section \<open>Documents, filters and the backend\<close>

datatype val = VNull | VStr string | VNum int | VBool bool | VDate nat

type_synonym doc = "(string \<times> val) list"

text \<open>
  A filter object maps keys to conditions: equality with a value, \<open>undefined\<close>
  (the field is missing or null), \<open>{ $ne: undefined }\<close> (the field holds a value) and,
  under the key \<open>$or\<close>, a list of alternative filters.
\<close>

datatype cond = Eq val | Undefined | NeUndefined | Or "(string \<times> cond) list list"

type_synonym filter_query = "(string \<times> cond) list"

text \<open>
  Object spread \<open>{ ...a, ...b }\<close>: a key of \<open>b\<close> already in \<open>a\<close> is overwritten in
  place, a new key is added at the end.
\<close>

definition spread :: "('k \<times> 'v) list \<Rightarrow> ('k \<times> 'v) list \<Rightarrow> ('k \<times> 'v) list" where
  "spread a b = foldl (\<lambda>acc (k, v). AList.update k v acc) a b"

fun holds :: "doc \<Rightarrow> string \<Rightarrow> cond \<Rightarrow> bool" where
  "holds d k (Eq v) = (map_of d k = Some v)"
| "holds d k Undefined = (map_of d k = None \<or> map_of d k = Some VNull)"
| "holds d k NeUndefined = (map_of d k \<noteq> None \<and> map_of d k \<noteq> Some VNull)"
| "holds d k (Or fs) = list_ex (\<lambda>f. list_all (\<lambda>kc. holds d (fst kc) (snd kc)) f) fs"

definition matches :: "filter_query \<Rightarrow> doc \<Rightarrow> bool" where
  "matches f d = list_all (\<lambda>kc. holds d (fst kc) (snd kc)) f"

subsection \<open>The document backend\<close>

text \<open>
  The collection is the list of its documents, in the order the backend returns them;
  sorting, projections and population do not change which or how many documents come
  back and are not modelled. \<open>skip\<close> rejects a negative offset; \<open>limit\<close> treats \<open>0\<close> as
  "no limit" and a negative bound as its absolute value.
\<close>

type_synonym collection = "doc list"

definition backend_error :: js_error where
  "backend_error = makeError ''skip value must be non-negative'' (Some ''MongoServerError'') None"

definition findOne :: "filter_query \<Rightarrow> collection \<Rightarrow> doc option" where
  "findOne f db = List.find (matches f) db"

definition countDocuments :: "filter_query \<Rightarrow> collection \<Rightarrow> nat" where
  "countDocuments f db = length (filter (matches f) db)"

definition limit_docs :: "int \<Rightarrow> doc list \<Rightarrow> doc list" where
  "limit_docs n ds = (if n = 0 then ds else take (nat \<bar>n\<bar>) ds)"

definition find_docs :: "filter_query \<Rightarrow> int \<Rightarrow> int \<Rightarrow> collection \<Rightarrow> doc list promise" where
  "find_docs f lmt skp db =
     (if skp < 0 then Inl backend_error
      else Inr (limit_docs lmt (drop (nat skp) (filter (matches f) db))))"

fun update_first :: "(doc \<Rightarrow> bool) \<Rightarrow> (doc \<Rightarrow> doc) \<Rightarrow> collection \<Rightarrow> collection" where
  "update_first P g [] = []"
| "update_first P g (d # ds) = (if P d then g d # ds else d # update_first P g ds)"

fun delete_first :: "(doc \<Rightarrow> bool) \<Rightarrow> collection \<Rightarrow> collection" where
  "delete_first P [] = []"
| "delete_first P (d # ds) = (if P d then ds else d # delete_first P ds)"

text \<open>An update document \<open>{ k: v, ... }\<close> sets each of its fields.\<close>

definition set_fields :: "doc \<Rightarrow> doc \<Rightarrow> doc" where
  "set_fields upd d = spread d upd"

text \<open>\<open>findOneAndUpdate(f, upd, { new: true })\<close>: the updated document, or \<open>null\<close>.\<close>

definition findOneAndUpdate ::
  "filter_query \<Rightarrow> doc \<Rightarrow> collection \<Rightarrow> doc option \<times> collection" where
  "findOneAndUpdate f upd db =
     (case findOne f db of
        None \<Rightarrow> (None, db)
      | Some d \<Rightarrow> (Some (set_fields upd d), update_first (matches f) (set_fields upd) db))"

definition findOneAndDelete :: "filter_query \<Rightarrow> collection \<Rightarrow> doc option \<times> collection" where
  "findOneAndDelete f db = (findOne f db, delete_first (matches f) db)"

definition backend_deleteMany :: "filter_query \<Rightarrow> collection \<Rightarrow> collection" where
  "backend_deleteMany f db = filter (\<lambda>d. \<not> matches f d) db"

definition backend_updateMany :: "filter_query \<Rightarrow> doc \<Rightarrow> collection \<Rightarrow> collection" where
  "backend_updateMany f upd db = map (\<lambda>d. if matches f d then set_fields upd d else d) db"

definition backend_distinct :: "string \<Rightarrow> filter_query \<Rightarrow> collection \<Rightarrow> val list" where
  "backend_distinct field f db = remdups (List.map_filter (\<lambda>d. map_of d field) (filter (matches f) db))"

section \<open>The repository\<close>

subsection \<open>Option and condition normalisation\<close>

text \<open>
  \<open>convertArchived\<close>: \<open>[undefined, "false", false, null].includes(archived) ? false : true\<close>.
\<close>

definition convertArchived :: "archived \<Rightarrow> bool" where
  "convertArchived a =
     (if a \<in> set [AUndefined, AStr ''false'', ABool False, ANull] then False else True)"

text \<open>
  A condition is a string (an id) or a filter object. \<open>getQuery\<close> turns the string into
  \<open>{ _id: condition }\<close> and copies the object.
\<close>

datatype condition = CString string | CObject filter_query

definition getQuery :: "condition \<Rightarrow> filter_query" where
  "getQuery c = (case c of CString s \<Rightarrow> [(''_id'', Eq (VStr s))] | CObject q \<Rightarrow> spread [] q)"

text \<open>
  Spreading a condition into an object literal, \<open>{ ...query }\<close>: an object gives its own
  keys, a string gives one key per character, named by the character's index.
\<close>

definition digit_char :: "nat \<Rightarrow> char" where
  "digit_char n = ''0123456789'' ! (n mod 10)"

fun show_nat :: "nat \<Rightarrow> string" where
  "show_nat n = (if n < 10 then [digit_char n] else show_nat (n div 10) @ [digit_char n])"

declare show_nat.simps [simp del]

definition spread_condition :: "condition \<Rightarrow> filter_query" where
  "spread_condition c =
     (case c of
        CString s \<Rightarrow> map (\<lambda>(i, ch). (show_nat i, Eq (VStr [ch]))) (enumerate 0 s)
      | CObject q \<Rightarrow> q)"

datatype sort_order = Minus1 | Plus1 | Asc | Ascending | Desc | Descending

type_synonym sort_spec = "(string \<times> sort_order) list option"

text \<open>
  Modelled from the spec: the constant \<open>DEFAULT_SORT\<close> is used by \<open>all\<close> and \<open>paginate\<close>
  but defined in no source file; the spec gives the default order as creation time,
  descending.
\<close>

definition DEFAULT_SORT :: sort_spec where
  "DEFAULT_SORT = Some [(''createdAt'', Desc)]"

text \<open>
  \<open>ExtendQuery\<close>: the options of the read operations. \<open>populate\<close> and \<open>projections\<close>
  only select what is shown of each row and are left out.
\<close>

record extend_query =
  opt_archived :: archived
  opt_sort :: sort_spec

text \<open>\<open>options?.archived\<close> and \<open>options?.sort\<close>.\<close>

definition archived_of :: "extend_query option \<Rightarrow> archived" where
  "archived_of options = (case options of None \<Rightarrow> AUndefined | Some opts \<Rightarrow> opt_archived opts)"

definition sort_of :: "extend_query option \<Rightarrow> sort_spec" where
  "sort_of options = (case options of None \<Rightarrow> None | Some opts \<Rightarrow> opt_sort opts)"

text \<open>\<open>options?.sort || DEFAULT_SORT\<close>.\<close>

definition sort_or_default :: "extend_query option \<Rightarrow> sort_spec" where
  "sort_or_default options = (case sort_of options of None \<Rightarrow> DEFAULT_SORT | Some s \<Rightarrow> Some s)"

subsection \<open>Single-record reads\<close>

text \<open>
  \<open>byID\<close>. The parameter is named \<open>id\<close>, but the object literal handed to
  \<open>findOne\<close> reads \<open>_id\<close>, an identifier declared in no scope: evaluating it throws
  a \<open>ReferenceError\<close>, which the async method turns into a rejection, on every call
  and before the backend is asked. The chain before it is not awaited and its result
  is dropped.
\<close>

definition reference_error :: js_error where
  "reference_error = \<lparr>message = ''_id is not defined'', name = ''ReferenceError'', cause = None\<rparr>"

definition byID :: "string \<Rightarrow> extend_query option \<Rightarrow> collection \<Rightarrow> doc promise" where
  "byID id' options db =
     (let archived = convertArchived (or_false (archived_of options))
      in Inl reference_error)"

text \<open>\<open>byQuery\<close>: \<open>archived\<close> is converted only when it is truthy, then negated.\<close>

definition byQuery_filter :: "condition \<Rightarrow> extend_query option \<Rightarrow> filter_query" where
  "byQuery_filter query options =
     (let archived = archived_of options;
          archived = (if truthy archived then convertArchived archived else False)
      in spread (spread [] (spread_condition query))
           (if \<not> archived then [(''deleted_at'', Undefined)]
            else [(''deleted_at'', NeUndefined)]))"

definition byQuery :: "condition \<Rightarrow> extend_query option \<Rightarrow> collection \<Rightarrow> doc promise" where
  "byQuery query options db =
     (case findOne (byQuery_filter query options) db of
        None \<Rightarrow> Inl not_found
      | Some result \<Rightarrow> Inr result)"

subsection \<open>Counting and listing\<close>

definition count :: "filter_query \<Rightarrow> collection \<Rightarrow> nat promise" where
  "count query db = Inr (countDocuments (spread [] query) db)"

definition distinct_values :: "string \<Rightarrow> filter_query \<Rightarrow> collection \<Rightarrow> val list promise" where
  "distinct_values field query db = Inr (backend_distinct field (spread [] query) db)"

definition countDistinct :: "string \<Rightarrow> filter_query \<Rightarrow> collection \<Rightarrow> nat promise" where
  "countDistinct field query db =
     (case distinct_values field query db of Inl e \<Rightarrow> Inl e | Inr ids \<Rightarrow> Inr (length ids))"

definition exists_doc :: "filter_query \<Rightarrow> collection \<Rightarrow> bool promise" where
  "exists_doc query db = Inr (findOne query db \<noteq> None)"

text \<open>The argument of \<open>all\<close>: \<open>{ conditions, skip, limit }\<close>, each optional.\<close>

record all_query =
  aq_conditions :: "filter_query option"
  aq_skip :: "jsnum option"
  aq_limit :: "jsnum option"

definition all_filter :: "all_query option \<Rightarrow> extend_query option \<Rightarrow> filter_query" where
  "all_filter query options =
     (let archived = convertArchived (or_false (archived_of options));
          conditions = (case query of None \<Rightarrow> [] | Some q \<Rightarrow>
                          (case aq_conditions q of None \<Rightarrow> [] | Some c \<Rightarrow> c))
      in spread (spread [] conditions)
           (if \<not> archived then [(''deleted_at'', Undefined)]
            else [(''$or'', Or [[(''deleted_at'', NeUndefined)], [(''deleted_at'', Undefined)]])]))"

definition all_docs :: "all_query option \<Rightarrow> extend_query option \<Rightarrow> collection \<Rightarrow> doc list promise" where
  "all_docs query options db =
     (let skp = js_or (case query of None \<Rightarrow> None | Some q \<Rightarrow> aq_skip q) 0;
          lmt = js_or (case query of None \<Rightarrow> None | Some q \<Rightarrow> aq_limit q) 0
      in find_docs (all_filter query options) lmt skp db)"

subsection \<open>Pagination\<close>

record paginated_query =
  pq_query :: filter_query
  pq_skip :: "jsnum option"
  pq_limit :: "jsnum option"
  pq_page :: "jsnum option"

record page_info =
  current :: int
  prev :: "int option"
  "next" :: "int option"

record paginated =
  p_data :: "doc list"
  p_total :: int
  p_limit :: int
  p_offset :: int
  p_pages :: int
  p_page :: page_info
  p_sort :: sort_spec

text \<open>\<open>const page = Number(pagination.page) - 1 || 0\<close>.\<close>

definition paginate_page :: "paginated_query \<Rightarrow> int" where
  "paginate_page pagination = js_or (Some (js_minus (Number (pq_page pagination)) 1)) 0"

text \<open>\<open>const limit = Number(pagination.limit) || 20\<close>.\<close>

definition paginate_limit :: "paginated_query \<Rightarrow> int" where
  "paginate_limit pagination = js_or (Some (Number (pq_limit pagination))) 20"

text \<open>\<open>const offset = page * limit\<close>.\<close>

definition paginate_offset :: "paginated_query \<Rightarrow> int" where
  "paginate_offset pagination = js_times (paginate_page pagination) (paginate_limit pagination)"

definition paginate_filter :: "paginated_query \<Rightarrow> extend_query option \<Rightarrow> filter_query" where
  "paginate_filter pagination options =
     (let archived = convertArchived (or_false (archived_of options))
      in spread (spread [] (pq_query pagination))
           (if \<not> archived then [(''deletedAt'', Undefined)]
            else [(''deletedAt'', NeUndefined)]))"

definition paginate :: "paginated_query \<Rightarrow> extend_query option \<Rightarrow> collection \<Rightarrow> paginated promise" where
  "paginate pagination options db =
     (let page = paginate_page pagination;
          limit = paginate_limit pagination;
          offset = paginate_offset pagination;
          srt = sort_or_default options;
          dbQuery = paginate_filter pagination options
      in case count dbQuery db of
           Inl err \<Rightarrow> Inl err
         | Inr cnt \<Rightarrow>
             (case find_docs dbQuery limit offset db of
                Inl err \<Rightarrow> Inl err
              | Inr result \<Rightarrow>
                  Inr \<lparr>p_data = result,
                       p_total = int cnt,
                       p_limit = limit,
                       p_offset = js_times page limit,
                       p_pages = Math_ceil_div (int cnt) limit,
                       p_page = \<lparr>current = js_plus page 1,
                                 prev = (if page > 0 then Some page else None),
                                 next = (if page < Math_ceil_div (int (length result)) limit
                                         then Some (js_plus page 2) else None)\<rparr>,
                       p_sort = srt\<rparr>))"

subsection \<open>Writes\<close>

text \<open>
  \<open>update\<close>: the first document matching the condition is changed and saved; the
  promise resolves to the saved document.
\<close>

definition update :: "condition \<Rightarrow> doc \<Rightarrow> collection \<Rightarrow> (doc \<times> collection) promise" where
  "update cnd upd db =
     (let query = getQuery cnd
      in case findOne query db of
           None \<Rightarrow> Inl not_found
         | Some result \<Rightarrow>
             Inr (set_fields upd result, update_first (matches query) (set_fields upd) db))"

definition updateMany :: "condition \<Rightarrow> doc \<Rightarrow> collection \<Rightarrow> (doc list \<times> collection) promise" where
  "updateMany cnd upd db =
     (let query = getQuery cnd;
          db' = backend_updateMany query upd db
      in case all_docs (Some \<lparr>aq_conditions = Some query, aq_skip = None, aq_limit = None\<rparr>) None db' of
           Inl err \<Rightarrow> Inl err
         | Inr docs \<Rightarrow> Inr (docs, db'))"

text \<open>
  \<open>softDelete\<close>, with the two clock readings \<open>now\<close> and \<open>new Date()\<close> as arguments.
  \<open>byQuery\<close> receives the condition itself, the update receives \<open>getQuery(condition)\<close>.
\<close>

definition softDelete :: "condition \<Rightarrow> nat \<Rightarrow> nat \<Rightarrow> collection \<Rightarrow> (doc \<times> collection) promise" where
  "softDelete cnd now now' db =
     (let query = getQuery cnd
      in case byQuery cnd None db of
           Inl err \<Rightarrow> Inl err
         | Inr old \<Rightarrow>
             (let old = set_fields [(''deletedAt'', VDate now)] old
              in case findOneAndUpdate query [(''deleted_at'', VDate now')] db of
                   (None, db') \<Rightarrow> Inl not_found
                 | (Some result, db') \<Rightarrow> Inr (old, db')))"

definition softDeleteMany :: "condition \<Rightarrow> nat \<Rightarrow> collection \<Rightarrow> (doc list \<times> collection) promise" where
  "softDeleteMany cnd deletedAt db =
     (let query = getQuery cnd
      in case all_docs (Some \<lparr>aq_conditions = Some query, aq_skip = None, aq_limit = None\<rparr>) None db of
           Inl err \<Rightarrow> Inl err
         | Inr docs \<Rightarrow>
             Inr (map (set_fields [(''deletedAt'', VDate deletedAt)]) docs,
                  backend_updateMany query [(''deleted_at'', VDate deletedAt)] db))"

text \<open>\<open>delete\<close> awaits \<open>findOneAndDelete\<close> and returns nothing.\<close>

definition delete :: "condition \<Rightarrow> collection \<Rightarrow> (unit \<times> collection) promise" where
  "delete cnd db =
     (let query = getQuery cnd
      in case findOneAndDelete query db of (result, db') \<Rightarrow> Inr ((), db'))"

text \<open>\<open>deleteMany(condition = {})\<close>: an omitted condition is the empty object.\<close>

definition deleteMany :: "condition option \<Rightarrow> collection \<Rightarrow> (unit \<times> collection) promise" where
  "deleteMany cnd db =
     (let cnd = (case cnd of None \<Rightarrow> CObject [] | Some c \<Rightarrow> c);
          query = getQuery cnd
      in Inr ((), backend_deleteMany query db))"

section \<open>Auxiliary facts\<close>

subsection \<open>Object spread\<close>

lemma update_fresh: "k \<notin> fst ` set al \<Longrightarrow> AList.update k v al = al @ [(k, v)]"
  by (induction al) auto

lemma foldl_update_distinct:
  "distinct (map fst (acc @ f)) \<Longrightarrow>
   foldl (\<lambda>acc (k, v). AList.update k v acc) acc f = acc @ f"
proof (induction f arbitrary: acc)
  case Nil
  then show ?case by simp
next
  case (Cons kv f)
  obtain k v where kv: "kv = (k, v)" by (cases kv)
  from Cons.prems have fresh: "k \<notin> fst ` set acc" by (auto simp: kv)
  from Cons.prems have "distinct (map fst ((acc @ [(k, v)]) @ f))" by (simp add: kv)
  from Cons.IH [OF this] show ?case by (simp add: kv update_fresh [OF fresh])
qed

lemma spread_Nil_distinct: "distinct (map fst f) \<Longrightarrow> spread [] f = f"
  using foldl_update_distinct [of "[]" f] by (simp add: spread_def)

lemma distinct_spread: "distinct (map fst a) \<Longrightarrow> distinct (map fst (spread a b))"
  unfolding spread_def
  by (induction b arbitrary: a) (auto simp: AList.distinct_update)



subsection \<open>The backend\<close>

lemma findOne_None_iff: "findOne f db = None \<longleftrightarrow> countDocuments f db = 0"
  by (auto simp: findOne_def countDocuments_def find_None_iff filter_empty_conv)


lemma length_limit_docs: "n \<noteq> 0 \<Longrightarrow> length (limit_docs n ds) \<le> nat \<bar>n\<bar>"
  by (simp add: limit_docs_def)




subsection \<open>Numbers\<close>

lemma ulp_pos: "0 < ulp n"
  by (induction n rule: ulp.induct) (subst ulp.simps, simp)

lemma ulp_small: "n < 9007199254740992 \<Longrightarrow> ulp n = 1"
  by (subst ulp.simps) simp

lemma ulp_big: "9007199254740992 \<le> n \<Longrightarrow> ulp n = 2 * ulp (n div 2)"
  by (subst ulp.simps) simp

lemma ulp_le: "1 \<le> n \<Longrightarrow> ulp n \<le> n"
proof (induction n rule: ulp.induct)
  case (1 n)
  show ?case
  proof (cases "n < 9007199254740992")
    case True
    with "1.prems" show ?thesis by (simp add: ulp_small)
  next
    case False
    then have "1 \<le> n div 2" by simp
    with "1.IH" False have "ulp (n div 2) \<le> n div 2" by simp
    with False show ?thesis by (subst ulp.simps) simp
  qed
qed

text \<open>Evaluating \<open>round_double\<close> at a numeral.\<close>

lemmas round_double_eval = round_double_def Let_def ulp_small ulp_big

lemma round_double_zero: "round_double 0 = 0"
  by (simp add: round_double_def)

text \<open>Integers up to \<open>2^53\<close> in magnitude are doubles: no rounding there.\<close>

lemma round_double_safe:
  assumes "\<bar>x\<bar> \<le> 9007199254740992"
  shows "round_double x = x"
proof (cases "\<bar>x\<bar> = 9007199254740992")
  case True
  have "ulp 9007199254740992 = 2"
    by (subst ulp.simps) (simp add: ulp_small)
  with True show ?thesis
    by (simp add: round_double_def Let_def abs_if sgn_if split: if_splits)
next
  case False
  with assms have "nat \<bar>x\<bar> < 9007199254740992" by simp
  then have "ulp (nat \<bar>x\<bar>) = 1" by (rule ulp_small)
  then show ?thesis
    by (simp add: round_double_def Let_def abs_if sgn_if)
qed

text \<open>Rounding keeps the sign.\<close>

lemma round_double_pos:
  assumes "1 \<le> x"
  shows "1 \<le> round_double x"
proof -
  let ?n = "nat \<bar>x\<bar>"
  from assms have n: "1 \<le> ?n" by simp
  from ulp_le [OF n] ulp_pos [of ?n] have "1 \<le> ?n div ulp ?n"
    by (simp add: Suc_le_eq div_greater_zero_iff)
  then have "1 * ulp ?n \<le> (?n div ulp ?n) * ulp ?n" by (intro mult_le_mono1)
  with ulp_pos [of ?n] have q: "1 \<le> (?n div ulp ?n) * ulp ?n" by simp
  have "(?n div ulp ?n) * ulp ?n \<le> (?n div ulp ?n + 1) * ulp ?n" by simp
  with q have "1 \<le> (if 2 * (?n mod ulp ?n) < ulp ?n \<or>
                      (2 * (?n mod ulp ?n) = ulp ?n \<and> even (?n div ulp ?n))
                   then (?n div ulp ?n) * ulp ?n else (?n div ulp ?n + 1) * ulp ?n)"
    by (simp del: mult_Suc add_mult_distrib)
  with assms show ?thesis
    unfolding round_double_def Let_def by (simp add: sgn_if del: mult_Suc)
qed

lemma round_double_uminus: "round_double (- x) = - round_double x"
  by (simp add: round_double_def Let_def sgn_if)

lemma round_double_neg: "x \<le> - 1 \<Longrightarrow> round_double x \<le> - 1"
  using round_double_pos [of "- x"] by (simp add: round_double_uminus)

lemma round_double_nonneg_iff: "0 \<le> round_double x \<longleftrightarrow> 0 \<le> x"
proof (cases "x = 0")
  case True
  then show ?thesis by (simp add: round_double_zero)
next
  case False
  show ?thesis
  proof (cases "1 \<le> x")
    case True
    with round_double_pos [OF True] show ?thesis by simp
  next
    case no: False
    with False have "x \<le> - 1" by simp
    from round_double_neg [OF this] this show ?thesis by simp
  qed
qed

lemma Math_ceil_div_int: "Math_ceil_div a b = - ((- a) div b)"
  by (simp add: Math_ceil_div_def ceiling_divide_eq_div)

lemma Math_ceil_div_le_1:
  assumes "0 < b" "a \<le> b"
  shows "Math_ceil_div a b \<le> 1"
proof -
  from assms have "real_of_int a / real_of_int b \<le> 1" by simp
  then show ?thesis unfolding Math_ceil_div_def by (simp add: ceiling_le_iff)
qed

lemma paginate_page_eq:
  "paginate_page pq =
     (case Number (pq_page pq) of NaN \<Rightarrow> 0 | Num n \<Rightarrow> round_double (n - 1))"
  by (simp add: paginate_page_def split: jsnum.splits)

lemma paginate_limit_eq:
  "paginate_limit pq =
     (case Number (pq_limit pq) of NaN \<Rightarrow> 20 | Num n \<Rightarrow> if n = 0 then 20 else n)"
  by (simp add: paginate_limit_def split: jsnum.splits)

lemma paginate_limit_nonzero: "paginate_limit pq \<noteq> 0"
  by (simp add: paginate_limit_eq split: jsnum.splits)

text \<open>Where the page index and the current page are exact.\<close>

lemma paginate_page_safe:
  assumes "pq_page pq = None \<or> pq_page pq = Some NaN \<or>
           (\<exists>n. pq_page pq = Some (Num n) \<and> - 9007199254740992 < n \<and> n \<le> 9007199254740992)"
  shows "js_plus (paginate_page pq) 1 = paginate_page pq + 1"
    and "\<bar>paginate_page pq\<bar> \<le> 9007199254740992"
  using assms by (auto simp: paginate_page_eq js_plus_def round_double_safe)

subsection \<open>What \<open>paginate\<close> returns\<close>

lemma paginate_filter_distinct: "distinct (map fst (paginate_filter pq opts))"
  by (simp add: paginate_filter_def Let_def distinct_spread)

text \<open>The copy \<open>{ ...query }\<close> that \<open>count\<close> makes of the derived filter changes nothing.\<close>

lemma count_paginate_filter:
  "count (paginate_filter pq opts) db = Inr (countDocuments (paginate_filter pq opts) db)"
  by (simp add: count_def spread_Nil_distinct paginate_filter_distinct)

lemma paginate_filter_plain:
  "pq_query pq = [] \<Longrightarrow> paginate_filter pq None = [(''deletedAt'', Undefined)]"
  by (simp add: paginate_filter_def spread_def archived_of_def convertArchived_def)

lemma paginate_eval:
  "paginate pq opts db =
     (let rows = limit_docs (paginate_limit pq)
                   (drop (nat (paginate_offset pq)) (filter (matches (paginate_filter pq opts)) db));
          cnt = int (countDocuments (paginate_filter pq opts) db)
      in if paginate_offset pq < 0 then Inl backend_error
         else Inr \<lparr>p_data = rows,
                   p_total = cnt,
                   p_limit = paginate_limit pq,
                   p_offset = js_times (paginate_page pq) (paginate_limit pq),
                   p_pages = Math_ceil_div cnt (paginate_limit pq),
                   p_page = \<lparr>current = js_plus (paginate_page pq) 1,
                             prev = (if paginate_page pq > 0 then Some (paginate_page pq) else None),
                             next = (if paginate_page pq < Math_ceil_div (int (length rows)) (paginate_limit pq)
                                     then Some (js_plus (paginate_page pq) 2) else None)\<rparr>,
                   p_sort = sort_or_default opts\<rparr>)"
  by (simp add: paginate_def Let_def count_paginate_filter find_docs_def)

lemma paginate_Inr:
  assumes "paginate pq opts db = Inr res"
  shows "0 \<le> paginate_offset pq"
    and "res = \<lparr>p_data = limit_docs (paginate_limit pq)
                   (drop (nat (paginate_offset pq)) (filter (matches (paginate_filter pq opts)) db)),
               p_total = int (countDocuments (paginate_filter pq opts) db),
               p_limit = paginate_limit pq,
               p_offset = js_times (paginate_page pq) (paginate_limit pq),
               p_pages = Math_ceil_div (int (countDocuments (paginate_filter pq opts) db)) (paginate_limit pq),
               p_page = \<lparr>current = js_plus (paginate_page pq) 1,
                         prev = (if paginate_page pq > 0 then Some (paginate_page pq) else None),
                         next = (if paginate_page pq < Math_ceil_div (int (length (limit_docs (paginate_limit pq)
                   (drop (nat (paginate_offset pq)) (filter (matches (paginate_filter pq opts)) db))))) (paginate_limit pq)
                                 then Some (js_plus (paginate_page pq) 2) else None)\<rparr>,
               p_sort = sort_or_default opts\<rparr>"
  using assms by (auto simp: paginate_eval Let_def split: if_splits)

text \<open>A call rejects only when the backend refuses the offset.\<close>

lemma paginate_resolves:
  assumes "0 \<le> paginate_offset pq"
  shows "\<exists>res. paginate pq opts db = Inr res"
  using assms by (simp add: paginate_eval Let_def)

subsection \<open>Lookups that find nothing\<close>

lemma not_found_name: "name not_found = ''ModelNotFoundError''"
  by (simp add: not_found_def makeError_def)

text \<open>\<open>byID\<close> rejects as well, but never with that error.\<close>

lemma byID_rejects: "byID i opts db = Inl reference_error"
  by (simp add: byID_def)

lemma reference_error_name: "name reference_error = ''ReferenceError''"
  by (simp add: reference_error_def)

lemma byQuery_rejects:
  "countDocuments (byQuery_filter q opts) db = 0 \<Longrightarrow> byQuery q opts db = Inl not_found"
  by (simp add: byQuery_def findOne_None_iff [symmetric])

lemma update_rejects:
  "countDocuments (getQuery cnd) db = 0 \<Longrightarrow> update cnd upd db = Inl not_found"
  by (simp add: update_def findOne_None_iff [symmetric])

lemma softDelete_rejects:
  "countDocuments (getQuery cnd) db = 0 \<Longrightarrow> softDelete cnd t1 t2 db = Inl not_found"
  by (simp add: softDelete_def byQuery_def findOneAndUpdate_def findOne_None_iff [symmetric]
      split: option.splits)

text \<open>\<open>delete\<close> has no such check: it resolves whatever \<open>findOneAndDelete\<close> found.\<close>

lemma delete_resolves: "delete cnd db = Inr ((), delete_first (matches (getQuery cnd)) db)"
  by (simp add: delete_def findOneAndDelete_def)

text \<open>The reads resolve on an empty collection.\<close>

lemma reads_resolve_on_empty:
  "count q [] = Inr 0"
  "distinct_values fld q [] = Inr []"
  "countDistinct fld q [] = Inr 0"
  "exists_doc q [] = Inr False"
  "all_docs None opts [] = Inr []"
  "0 \<le> paginate_offset pq \<Longrightarrow>
     \<exists>res. paginate pq opts [] = Inr res \<and> p_data res = [] \<and> p_total res = 0"
  by (simp_all add: count_def countDocuments_def distinct_values_def backend_distinct_def
        countDistinct_def exists_doc_def findOne_def all_docs_def find_docs_def limit_docs_def
        paginate_def Let_def List.map_filter_simps)

subsection \<open>Soft deletion\<close>




text \<open>With the archived option on, the filter of \<open>all\<close> accepts every document.\<close>

lemma all_filter_archived:
  assumes "convertArchived (or_false (archived_of options))"
  shows "matches (all_filter None options) d"
  using assms
  by (cases "map_of d ''deleted_at''") (simp_all add: all_filter_def spread_def matches_def)

section \<open>Properties\<close>

text \<open>
  C1, evaluated. Page 2 of 45 live records, 20 to a page: 20 rows come back, as many as
  the limit, and 5 records remain, yet \<open>next\<close> is \<open>null\<close>. Page 1 of 5 live records:
  5 rows come back, fewer than the limit, and none remain, yet \<open>next\<close> is 2.
\<close>

theorem paginate_next_ignores_remaining_records:
  "paginate \<lparr>pq_query = [], pq_skip = None, pq_limit = Some (Num 20), pq_page = Some (Num 2)\<rparr>
     None (replicate 45 [(''name'', VStr ''n'')])
   = Inr \<lparr>p_data = replicate 20 [(''name'', VStr ''n'')], p_total = 45, p_limit = 20,
          p_offset = 20, p_pages = 3,
          p_page = \<lparr>current = 2, prev = Some 1, next = None\<rparr>,
          p_sort = DEFAULT_SORT\<rparr> \<and>
   paginate \<lparr>pq_query = [], pq_skip = None, pq_limit = Some (Num 20), pq_page = Some (Num 1)\<rparr>
     None (replicate 5 [(''name'', VStr ''n'')])
   = Inr \<lparr>p_data = replicate 5 [(''name'', VStr ''n'')], p_total = 5, p_limit = 20,
          p_offset = 0, p_pages = 1,
          p_page = \<lparr>current = 1, prev = None, next = Some 2\<rparr>,
          p_sort = DEFAULT_SORT\<rparr>"
  by (simp add: paginate_eval Let_def paginate_filter_plain countDocuments_def limit_docs_def
        matches_def paginate_page_eq paginate_limit_eq paginate_offset_def
        sort_or_default_def sort_of_def Math_ceil_div_int js_plus_def js_times_def
        round_double_safe)

text \<open>
  C2, evaluated. \<open>delete\<close> with an id no record has, on an empty collection: the call
  resolves. \<open>byQuery\<close>, \<open>update\<close> and \<open>softDelete\<close> reject there with the error
  named \<open>ModelNotFoundError\<close>; \<open>byID\<close> rejects with a \<open>ReferenceError\<close>.
\<close>

theorem delete_resolves_without_match:
  "delete (CObject [(''_id'', Eq (VStr ''missing''))]) [] = Inr ((), []) \<and>
   byID ''missing'' None [] = Inl reference_error \<and>
   name reference_error = ''ReferenceError'' \<and>
   byQuery (CObject [(''_id'', Eq (VStr ''missing''))]) None [] = Inl not_found \<and>
   update (CObject [(''_id'', Eq (VStr ''missing''))]) [] [] = Inl not_found \<and>
   softDelete (CObject [(''_id'', Eq (VStr ''missing''))]) 1 2 [] = Inl not_found \<and>
   name not_found = ''ModelNotFoundError''"
  by (simp add: delete_resolves byID_rejects byQuery_rejects update_rejects softDelete_rejects
        countDocuments_def not_found_name reference_error_name)

text \<open>
  C3. \<open>convertArchived\<close> answers "not archived" (\<open>False\<close>) exactly on \<open>undefined\<close>,
  \<open>null\<close>, \<open>false\<close> and the string \<open>"false"\<close>, and "archived" (\<open>True\<close>) on every other
  input: \<open>true\<close>, the string \<open>"true"\<close>, and any other string, the empty one included.
\<close>

theorem convertArchived_spec:
  "(\<not> convertArchived a) = (a \<in> {AUndefined, ANull, ABool False, AStr ''false''})"
  by (auto simp: convertArchived_def)

text \<open>
  C4 (as amended). The 0-based page index is \<open>toNumber(request.page) - 1\<close> whenever
  \<open>request.page\<close> is a number, negative values included, and \<open>0\<close> when it is absent
  or not a number; the limit is \<open>toNumber(request.limit)\<close> when that is a non-zero number
  and \<open>20\<close> otherwise; the offset is page index times limit, and it is the offset the
  backend's \<open>find\<close> is called with. The subtraction and the product are the code's, on
  doubles.
\<close>

theorem paginate_normalisation:
  "paginate_page pq =
     (case Number (pq_page pq) of NaN \<Rightarrow> 0 | Num n \<Rightarrow> round_double (n - 1)) \<and>
   paginate_limit pq =
     (case Number (pq_limit pq) of NaN \<Rightarrow> 20 | Num n \<Rightarrow> if n = 0 then 20 else n) \<and>
   paginate_offset pq = js_times (paginate_page pq) (paginate_limit pq) \<and>
   map_sum id p_data (paginate pq opts db) =
     find_docs (paginate_filter pq opts) (paginate_limit pq)
       (js_times (paginate_page pq) (paginate_limit pq)) db"
proof -
  have "map_sum id p_data (paginate pq opts db) =
     find_docs (paginate_filter pq opts) (paginate_limit pq)
       (js_times (paginate_page pq) (paginate_limit pq)) db"
    by (simp add: paginate_eval Let_def find_docs_def paginate_offset_def)
  then show ?thesis
    by (simp add: paginate_page_eq paginate_limit_eq paginate_offset_def)
qed

text \<open>
  C4 as stated fails: for \<open>page: 0\<close> the page index is \<open>-1\<close>, not \<open>max(0, 0 - 1) = 0\<close>;
  the offset is \<open>-20\<close>.
\<close>

theorem paginate_page_negative:
  "paginate_page \<lparr>pq_query = [], pq_skip = None, pq_limit = None, pq_page = Some (Num 0)\<rparr> = - 1 \<and>
   paginate_page \<lparr>pq_query = [], pq_skip = None, pq_limit = None, pq_page = Some (Num 0)\<rparr>
     \<noteq> max 0 (0 - 1) \<and>
   paginate_offset \<lparr>pq_query = [], pq_skip = None, pq_limit = None, pq_page = Some (Num 0)\<rparr> = - 20"
  by (simp add: paginate_page_eq paginate_limit_eq paginate_offset_def js_times_def round_double_safe)

text \<open>
  C5 (as amended). When the request page is absent, not a number, or a number above
  \<open>-2^53\<close> and at most \<open>2^53\<close>, whatever \<open>paginate\<close> returns has
  \<open>offset = (page.current - 1) * limit\<close>, the subtraction exact and the product as
  the code takes it, on doubles (the exact product whenever that is at most \<open>2^53\<close> in
  magnitude); the total is the backend's count for the derived filter, the limit is not
  zero and \<open>pages = ceil(total / limit)\<close>; for a positive limit, \<open>pages\<close> is the least
  number of pages of that size holding \<open>total\<close> records.
\<close>

theorem paginate_offset_and_pages:
  assumes safe: "pq_page pq = None \<or> pq_page pq = Some NaN \<or>
                 (\<exists>n. pq_page pq = Some (Num n) \<and> - 9007199254740992 < n \<and> n \<le> 9007199254740992)"
      and res: "paginate pq opts db = Inr res"
  shows "js_minus (Num (current (p_page res))) 1 = Num (current (p_page res) - 1) \<and>
         p_offset res = js_times (current (p_page res) - 1) (p_limit res) \<and>
         (\<bar>(current (p_page res) - 1) * p_limit res\<bar> \<le> 9007199254740992 \<longrightarrow>
            p_offset res = (current (p_page res) - 1) * p_limit res) \<and>
         p_total res = int (countDocuments (paginate_filter pq opts) db) \<and>
         p_limit res \<noteq> 0 \<and>
         p_pages res = \<lceil>real_of_int (p_total res) / real_of_int (p_limit res)\<rceil> \<and>
         (0 < p_limit res \<longrightarrow>
            (p_pages res - 1) * p_limit res < p_total res \<and>
            p_total res \<le> p_pages res * p_limit res)"
proof -
  note r = paginate_Inr(2) [OF res]
  note pg = paginate_page_safe [OF safe]
  have cur: "current (p_page res) = paginate_page pq + 1"
    by (subst r) (simp add: pg)
  have lim: "p_limit res = paginate_limit pq"
    by (subst r) simp
  have off: "p_offset res = js_times (paginate_page pq) (paginate_limit pq)"
    by (subst r) simp
  have 0: "js_minus (Num (current (p_page res))) 1 = Num (current (p_page res) - 1)"
    using pg by (simp add: cur round_double_safe)
  have 1: "p_offset res = js_times (current (p_page res) - 1) (p_limit res)"
    by (simp add: cur lim off)
  have exact: "p_offset res = (current (p_page res) - 1) * p_limit res"
    if "\<bar>(current (p_page res) - 1) * p_limit res\<bar> \<le> 9007199254740992"
    using that by (simp add: 1 js_times_def round_double_safe)
  have 2: "p_total res = int (countDocuments (paginate_filter pq opts) db)"
    by (subst r) simp
  have 3: "p_limit res \<noteq> 0"
    by (simp add: lim paginate_limit_nonzero)
  have 4: "p_pages res = \<lceil>real_of_int (p_total res) / real_of_int (p_limit res)\<rceil>"
    by (subst (1 2 3) r) (simp add: Math_ceil_div_def)
  have 5: "(p_pages res - 1) * p_limit res < p_total res \<and>
           p_total res \<le> p_pages res * p_limit res" if pos: "0 < p_limit res"
  proof -
    let ?x = "real_of_int (p_total res) / real_of_int (p_limit res)"
    have a: "real_of_int (p_pages res) - 1 < ?x" "?x \<le> real_of_int (p_pages res)"
      unfolding 4 by linarith+
    from a pos
    have "(real_of_int (p_pages res) - 1) * real_of_int (p_limit res) < real_of_int (p_total res)"
      by (simp add: pos_less_divide_eq)
    moreover from a pos
    have "real_of_int (p_total res) \<le> real_of_int (p_pages res) * real_of_int (p_limit res)"
      by (simp add: pos_divide_le_eq)
    ultimately show ?thesis
      by (metis of_int_1 of_int_diff of_int_mult of_int_less_iff of_int_le_iff)
  qed
  from 0 1 exact 2 3 4 5 show ?thesis by blast
qed

text \<open>
  Page 3 of 45 live records, 20 to a page: the call resolves with offset
  \<open>40 = (3 - 1) * 20\<close>, total 45 and 3 pages.
\<close>

theorem paginate_offset_and_pages_witness:
  "\<exists>res. paginate \<lparr>pq_query = [], pq_skip = None, pq_limit = Some (Num 20), pq_page = Some (Num 3)\<rparr>
            None (replicate 45 [(''name'', VStr ''n'')]) = Inr res \<and>
         current (p_page res) = 3 \<and> p_limit res = 20 \<and> p_offset res = 40 \<and>
         p_total res = 45 \<and> p_pages res = 3"
proof -
  let ?pq = "\<lparr>pq_query = [], pq_skip = None, pq_limit = Some (Num 20), pq_page = Some (Num 3)\<rparr>"
  let ?db = "replicate 45 [(''name'', VStr ''n'')]"
  have safe: "pq_page ?pq = None \<or> pq_page ?pq = Some NaN \<or>
              (\<exists>n. pq_page ?pq = Some (Num n) \<and> - 9007199254740992 < n \<and> n \<le> 9007199254740992)"
    by simp
  have off: "0 \<le> paginate_offset ?pq"
    by (simp add: paginate_offset_def paginate_page_eq paginate_limit_eq js_times_def
          round_double_safe)
  from paginate_resolves [OF off] obtain res where r: "paginate ?pq None ?db = Inr res"
    by blast
  have lim: "p_limit res = 20" "current (p_page res) = 3"
    by (subst paginate_Inr(2) [OF r],
        simp add: paginate_limit_eq paginate_page_eq js_plus_def round_double_safe)+
  have cnt: "countDocuments (paginate_filter ?pq None) ?db = 45"
    by (simp add: paginate_filter_plain countDocuments_def matches_def)
  from paginate_offset_and_pages [OF safe r] lim cnt
  have "p_offset res = 40 \<and> p_total res = 45 \<and> p_pages res = 3"
    by simp
  with r lim show ?thesis by blast
qed

text \<open>
  C5 as stated fails beyond \<open>2^53\<close>: for \<open>page: 9007199254740994\<close> (\<open>2^53 + 2\<close>) and
  \<open>limit: 20\<close> the page index \<open>2^53 + 1\<close> rounds to \<open>2^53\<close>, and so does
  \<open>current\<close>; the offset is \<open>2^53 * 20\<close>, while \<open>(current - 1) * limit\<close> is
  \<open>180143985094819820\<close> exactly and \<open>180143985094819808\<close> on doubles.
\<close>

theorem paginate_offset_beyond_2_53:
  "map_sum id (\<lambda>res. (p_offset res, current (p_page res), p_limit res))
     (paginate \<lparr>pq_query = [], pq_skip = None, pq_limit = Some (Num 20),
                pq_page = Some (Num 9007199254740994)\<rparr> None [])
     = Inr (180143985094819840, 9007199254740992, 20) \<and>
   js_minus (Num 9007199254740992) 1 = Num 9007199254740991 \<and>
   js_times 9007199254740991 20 = 180143985094819808 \<and>
   (9007199254740992 - 1) * 20 = (180143985094819820 :: int)"
  by (simp add: paginate_eval Let_def paginate_page_eq paginate_limit_eq paginate_offset_def
        js_plus_def js_times_def round_double_eval)

text \<open>
  C6, evaluated. With \<open>archived: true\<close> the filter of \<open>all\<close> accepts a record with no
  deletion timestamp and a record with one; the filter of \<open>paginate\<close> is
  \<open>{ deletedAt: { $ne: undefined } }\<close> and rejects the record with no deletion
  timestamp, so \<open>paginate\<close> returns no row where \<open>all\<close> returns the record.
\<close>

theorem paginate_archived_rejects_live_record:
  "paginate_filter \<lparr>pq_query = [], pq_skip = None, pq_limit = None, pq_page = None\<rparr>
     (Some \<lparr>opt_archived = ABool True, opt_sort = None\<rparr>) = [(''deletedAt'', NeUndefined)] \<and>
   \<not> matches (paginate_filter \<lparr>pq_query = [], pq_skip = None, pq_limit = None, pq_page = None\<rparr>
                (Some \<lparr>opt_archived = ABool True, opt_sort = None\<rparr>)) [(''_id'', VStr ''a'')] \<and>
   matches (all_filter None (Some \<lparr>opt_archived = ABool True, opt_sort = None\<rparr>))
     [(''_id'', VStr ''a'')] \<and>
   matches (all_filter None (Some \<lparr>opt_archived = ABool True, opt_sort = None\<rparr>))
     [(''_id'', VStr ''a''), (''deleted_at'', VDate 1)] \<and>
   map_sum id p_data
     (paginate \<lparr>pq_query = [], pq_skip = None, pq_limit = None, pq_page = None\<rparr>
        (Some \<lparr>opt_archived = ABool True, opt_sort = None\<rparr>) [[(''_id'', VStr ''a'')]]) = Inr [] \<and>
   all_docs None (Some \<lparr>opt_archived = ABool True, opt_sort = None\<rparr>) [[(''_id'', VStr ''a'')]]
     = Inr [[(''_id'', VStr ''a'')]]"
  by (simp add: paginate_def Let_def count_def countDocuments_def find_docs_def limit_docs_def
       paginate_page_eq paginate_limit_eq paginate_offset_def all_docs_def
       paginate_filter_def all_filter_def spread_def matches_def archived_of_def convertArchived_def
       js_times_def round_double_safe)

text \<open>
  C7 (as amended). When the request page is absent or a number from 1 up to \<open>2^53\<close>,
  the result's \<open>page.prev\<close> is \<open>null\<close> if \<open>page.current\<close> is 1 and
  \<open>page.current - 1\<close> otherwise.
\<close>

theorem paginate_prev:
  assumes pg: "pq_page pq = None \<or>
               (\<exists>n. pq_page pq = Some (Num n) \<and> 1 \<le> n \<and> n \<le> 9007199254740992)"
      and res: "paginate pq opts db = Inr res"
  shows "prev (p_page res) =
           (if current (p_page res) = 1 then None else Some (current (p_page res) - 1))"
proof -
  from pg have safe: "pq_page pq = None \<or> pq_page pq = Some NaN \<or>
      (\<exists>n. pq_page pq = Some (Num n) \<and> - 9007199254740992 < n \<and> n \<le> 9007199254740992)"
    by auto
  note s = paginate_page_safe [OF safe]
  from pg have "0 \<le> paginate_page pq"
    by (auto simp: paginate_page_eq round_double_nonneg_iff)
  then show ?thesis
    by (subst (1 2 3) paginate_Inr(2) [OF res]) (auto simp: s)
qed

text \<open>Page 3 of 45 live records, 20 to a page: \<open>current\<close> is 3 and \<open>prev\<close> is 2.\<close>

theorem paginate_prev_witness:
  "\<exists>res. paginate \<lparr>pq_query = [], pq_skip = None, pq_limit = Some (Num 20), pq_page = Some (Num 3)\<rparr>
            None (replicate 45 [(''name'', VStr ''n'')]) = Inr res \<and>
         current (p_page res) = 3 \<and> prev (p_page res) = Some 2"
proof -
  let ?pq = "\<lparr>pq_query = [], pq_skip = None, pq_limit = Some (Num 20), pq_page = Some (Num 3)\<rparr>"
  let ?db = "replicate 45 [(''name'', VStr ''n'')]"
  have off: "0 \<le> paginate_offset ?pq"
    by (simp add: paginate_offset_def paginate_page_eq paginate_limit_eq js_times_def
          round_double_safe)
  from paginate_resolves [OF off] obtain res where r: "paginate ?pq None ?db = Inr res"
    by blast
  have cur: "current (p_page res) = 3"
    by (subst paginate_Inr(2) [OF r]) (simp add: paginate_page_eq js_plus_def round_double_safe)
  have pg: "pq_page ?pq = None \<or>
            (\<exists>n. pq_page ?pq = Some (Num n) \<and> 1 \<le> n \<and> n \<le> 9007199254740992)"
    by simp
  from paginate_prev [OF pg r] cur have "prev (p_page res) = Some 2" by simp
  with r cur show ?thesis by blast
qed

text \<open>
  C7 as stated fails beyond \<open>2^53\<close>: for \<open>page: 9007199254740994\<close> (\<open>2^53 + 2\<close>) the
  page index \<open>2^53 + 1\<close> rounds to \<open>2^53\<close>, and \<open>current\<close>, one more, rounds to
  \<open>2^53\<close> again: \<open>prev\<close> equals \<open>current\<close>, which is not 1, and not \<open>current - 1\<close>.
\<close>

theorem paginate_prev_beyond_2_53:
  "map_sum id p_page
     (paginate \<lparr>pq_query = [], pq_skip = None, pq_limit = Some (Num 20),
                pq_page = Some (Num 9007199254740994)\<rparr> None [])
     = Inr \<lparr>current = 9007199254740992, prev = Some 9007199254740992, next = None\<rparr> \<and>
   Some (9007199254740992 :: int) \<noteq> Some (9007199254740992 - 1) \<and>
   js_minus (Num 9007199254740992) 1 \<noteq> Num 9007199254740992"
  by (simp add: paginate_eval Let_def paginate_page_eq paginate_limit_eq paginate_offset_def
        js_plus_def js_times_def round_double_eval limit_docs_def Math_ceil_div_int)




text \<open>
  C9. When the request page is 2 or more, every result \<open>paginate\<close> returns has
  \<open>page.next = null\<close>, whatever the total and the rows: the backend returns at most
  \<open>limit\<close> rows, so \<open>ceil(rows.length / limit)\<close> is at most 1 and never exceeds the
  page index. Such a call does return whenever the limit is positive.
\<close>

theorem paginate_next_null_after_first_page:
  assumes pg: "pq_page pq = Some (Num n)" "2 \<le> n"
  shows "(\<forall>res. paginate pq opts db = Inr res \<longrightarrow> next (p_page res) = None) \<and>
         (0 < paginate_limit pq \<longrightarrow> (\<exists>res. paginate pq opts db = Inr res))"
proof -
  let ?rows = "limit_docs (paginate_limit pq)
                 (drop (nat (paginate_offset pq)) (filter (matches (paginate_filter pq opts)) db))"
  from pg have "1 \<le> round_double (n - 1)"
    by (intro round_double_pos) simp
  with pg have page: "1 \<le> paginate_page pq"
    by (simp add: paginate_page_eq)
  have 1: "next (p_page res) = None" if res: "paginate pq opts db = Inr res" for res
  proof -
    have off: "0 \<le> paginate_offset pq" by (rule paginate_Inr(1) [OF res])
    with page have lim: "0 < paginate_limit pq"
      using paginate_limit_nonzero [of pq]
      by (auto simp: paginate_offset_def js_times_def round_double_nonneg_iff zero_le_mult_iff)
    have "length ?rows \<le> nat \<bar>paginate_limit pq\<bar>"
      by (rule length_limit_docs) (rule paginate_limit_nonzero)
    with lim have "int (length ?rows) \<le> paginate_limit pq" by simp
    from Math_ceil_div_le_1 [OF lim this] page
    have "\<not> paginate_page pq < Math_ceil_div (int (length ?rows)) (paginate_limit pq)" by simp
    then show ?thesis
      by (subst paginate_Inr(2) [OF res]) simp
  qed
  have 2: "\<exists>res. paginate pq opts db = Inr res" if "0 < paginate_limit pq"
  proof (rule paginate_resolves)
    from that page show "0 \<le> paginate_offset pq"
      by (simp add: paginate_offset_def js_times_def round_double_nonneg_iff)
  qed
  from 1 2 show ?thesis by blast
qed

text \<open>
  Page 2 of 45 live records, 20 to a page: the call returns 20 rows and \<open>next = null\<close>.
\<close>

theorem paginate_next_null_after_first_page_witness:
  "\<exists>res. paginate \<lparr>pq_query = [], pq_skip = None, pq_limit = Some (Num 20), pq_page = Some (Num 2)\<rparr>
            None (replicate 45 [(''name'', VStr ''n'')]) = Inr res \<and>
         next (p_page res) = None"
proof -
  let ?pq = "\<lparr>pq_query = [], pq_skip = None, pq_limit = Some (Num 20), pq_page = Some (Num 2)\<rparr>"
  have pg: "pq_page ?pq = Some (Num 2)" "(2::int) \<le> 2" by simp_all
  have lim: "0 < paginate_limit ?pq" by (simp add: paginate_limit_eq)
  from paginate_next_null_after_first_page [OF pg] lim show ?thesis by blast
qed

text \<open>
  C10. \<open>deleteMany\<close> without a condition issues the backend delete with the empty
  filter, which every document matches, so nothing is left; the call resolves, on an
  empty collection too.
\<close>

theorem deleteMany_default_condition:
  "deleteMany None db = Inr ((), backend_deleteMany [] db) \<and>
   matches [] d \<and>
   backend_deleteMany [] db = [] \<and>
   deleteMany None [] = Inr ((), [])"
  by (simp add: deleteMany_def getQuery_def spread_def backend_deleteMany_def matches_def)

end
